theory Spec2Isabelle
  imports Complex_Main "HOL-Library.AList"
begin

section \<open>Data of the two servers\<close>

text \<open>
  The repository holds two variants of one server. The simple variant (the 116-line file)
  keeps the last position of each user in the object \<open>dataInMemory\<close> and has the route
  \<open>POST /api/admin/resetar\<close>. The richer variant (\<open>server.ts\<close>) inserts every position into
  the table \<open>coordinates\<close> of an external store and never touches \<open>dataInMemory\<close>.

  A JavaScript \<open>number\<close> is only copied by this code, never computed with, so it is
  modelled by \<open>real\<close>.

  \<open>dataInMemory\<close> is a plain object, created by \<open>{}\<close>. Its entries are its own properties,
  and the key of an assignment is the string that the template literal builds from
  \<open>data.userId\<close>, which for a string is the string itself. One key is special in
  JavaScript: \<open>__proto__\<close> is an accessor of \<open>Object.prototype\<close>, so the assignment
  \<open>dataInMemory["__proto__"] = v\<close> with an object \<open>v\<close> runs its setter, which makes \<open>v\<close> the
  prototype of \<open>dataInMemory\<close> and creates no own property. Every other key, also the name
  of an inherited method, is an ordinary assignment that creates or replaces the own
  property.
\<close>

type_synonym number = real

text \<open>The object \<open>{ lat: data.lat, lng: data.lng }\<close> stored in \<open>dataInMemory\<close>.\<close>

record latlng =
  lat :: number
  lng :: number

text \<open>
  The payload of \<open>update_position\<close>: \<open>{ userId, lat, lng }\<close> in the simple variant, where
  \<open>userId\<close> is a string, and \<open>{ userId, lat, lng, tripId }\<close> in the richer one, where
  \<open>userId\<close> is a number.
\<close>

record 'u position_data = latlng +
  userId :: 'u

record 'u trip_position_data = "'u position_data" +
  tripId :: string

text \<open>The row \<open>{ user_id, trip_id, lat, lng }\<close> handed to \<open>supabase.from('coordinates').insert\<close>.\<close>

record coordinates_row = latlng +
  user_id :: number
  trip_id :: string

text \<open>\<open>ServerToClientEvents\<close>: what the server can send to a client.\<close>

datatype server_to_client =
    Palete_movimentado string number number
  | Erro_sistema string

text \<open>A socket: its \<open>id\<close> and its \<open>data.userId\<close> (\<open>SocketData\<close>), undefined until someone sets it.\<close>

record socket =
  socket_id :: string
  data_userId :: "string option"

text \<open>What the handlers write with \<open>console.log\<close> and \<open>console.error\<close>.\<close>

datatype console_line =
    Log_cliente_conectado string
  | Log_cliente_desconectou string
  | Log_dados_do_front "string position_data"
  | Log_recebido "number trip_position_data"
  | Error_ao_salvar_coordenada string
  | Error_interno_ao_salvar string

text \<open>
  The process state: the own properties of the object \<open>dataInMemory\<close> and its prototype
  (\<open>None\<close> is \<open>Object.prototype\<close>, which it has from \<open>{}\<close>; \<open>Some v\<close> is an object \<open>v\<close> that
  the setter of \<open>__proto__\<close> has put there), the sockets that \<open>io\<close> holds (socket.io keeps
  them in a \<open>Map\<close> from socket id to socket), the console, and every message handed to a
  client, with the id of the socket it went to.
\<close>

record server =
  dataInMemory :: "string \<rightharpoonup> latlng"
  dataInMemory_prototype :: "latlng option"
  sockets :: "(string \<times> socket) list"
  console :: "console_line list"
  emitted :: "(string \<times> server_to_client) list"

text \<open>The richer variant also talks to the store: \<open>inserts\<close> lists the rows it was asked to insert.\<close>

record db_server = server +
  inserts :: "coordinates_row list"

definition initial :: server where
  "initial = \<lparr>dataInMemory = Map.empty, dataInMemory_prototype = None, sockets = [],
     console = [], emitted = []\<rparr>"

definition db_initial :: db_server where
  "db_initial = \<lparr>dataInMemory = Map.empty, dataInMemory_prototype = None, sockets = [],
     console = [], emitted = [], inserts = []\<rparr>"

section \<open>The socket layer\<close>

definition console_log :: "console_line \<Rightarrow> 'a server_scheme \<Rightarrow> 'a server_scheme" where
  "console_log l s = s\<lparr>console := console s @ [l]\<rparr>"

definition console_error :: "console_line \<Rightarrow> 'a server_scheme \<Rightarrow> 'a server_scheme" where
  "console_error l s = s\<lparr>console := console s @ [l]\<rparr>"

text \<open>\<open>io.emit(ev)\<close>: socket.io hands the message to every socket it holds at the time of the call.\<close>

definition io_emit :: "server_to_client \<Rightarrow> 'a server_scheme \<Rightarrow> 'a server_scheme" where
  "io_emit ev s = s\<lparr>emitted := emitted s @ map (\<lambda>(c, sock). (c, ev)) (sockets s)\<rparr>"

text \<open>
  \<open>io.on("connection", (socket) => ...)\<close>: socket.io has stored the new socket, whose
  \<open>data\<close> is empty, and the callback logs it; the two \<open>socket.on\<close> calls register the
  handlers below for this socket.
\<close>

definition connection :: "string \<Rightarrow> 'a server_scheme \<Rightarrow> 'a server_scheme" where
  "connection c s =
     console_log (Log_cliente_conectado c)
       (s\<lparr>sockets := AList.update c \<lparr>socket_id = c, data_userId = None\<rparr> (sockets s)\<rparr>)"

text \<open>\<open>socket.on("disconnect", ...)\<close>: socket.io has dropped the socket, and the callback logs it.\<close>

definition disconnect :: "socket \<Rightarrow> 'a server_scheme \<Rightarrow> 'a server_scheme" where
  "disconnect sock s =
     console_log (Log_cliente_desconectou (socket_id sock))
       (s\<lparr>sockets := AList.delete (socket_id sock) (sockets s)\<rparr>)"

section \<open>The simple variant\<close>

text \<open>
  The assignment \<open>dataInMemory[key] = v\<close> of an object \<open>v\<close>: for the key \<open>__proto__\<close> the
  setter replaces the prototype and the own properties stay as they are; for any other
  key the own property is created or replaced.
\<close>

definition assign_dataInMemory :: "string \<Rightarrow> latlng \<Rightarrow> 'a server_scheme \<Rightarrow> 'a server_scheme" where
  "assign_dataInMemory key v s =
     (if key = ''__proto__'' then s\<lparr>dataInMemory_prototype := Some v\<rparr>
      else s\<lparr>dataInMemory := (dataInMemory s)(key \<mapsto> v)\<rparr>)"

text \<open>
  \<open>socket.on("update_position", (data) => ...)\<close>: log the payload, then assign
  \<open>dataInMemory[`${data.userId}`] = { lat: data.lat, lng: data.lng }\<close>. The broadcast of
  \<open>palete_movimentado\<close> is commented out in the source, so nothing is emitted.
\<close>

definition update_position ::
  "socket \<Rightarrow> string position_data \<Rightarrow> 'a server_scheme \<Rightarrow> 'a server_scheme" where
  "update_position sock data s =
     (let s1 = console_log (Log_dados_do_front data) s
      in assign_dataInMemory (userId data) \<lparr>lat = lat data, lng = lng data\<rparr> s1)"

text \<open>The body sent by \<open>res.json\<close>, an object of boolean fields, and the response.\<close>

datatype response = Res_json "(string \<times> bool) list"

text \<open>
  \<open>app.post("/api/admin/resetar", ...)\<close>: emit \<open>erro_sistema\<close> to everybody, then answer
  \<open>{ ok: true }\<close>.
\<close>

definition post_api_admin_resetar :: "'a server_scheme \<Rightarrow> response \<times> 'a server_scheme" where
  "post_api_admin_resetar s =
     (let s1 = io_emit (Erro_sistema ''Sistema reiniciando, aguarde...'') s
      in (Res_json [(''ok'', True)], s1))"

text \<open>
  What reaches the simple server: a client connects, a connected client sends
  \<open>update_position\<close>, a connected client goes away, or the admin route is called. A socket
  that is not connected has no handler, so its events do nothing.
\<close>

datatype event =
    Connection string
  | Update_position string "string position_data"
  | Disconnect string
  | Post_api_admin_resetar

fun step :: "event \<Rightarrow> 'a server_scheme \<Rightarrow> 'a server_scheme" where
  "step (Connection c) s = connection c s"
| "step (Update_position c data) s =
     (case map_of (sockets s) c of
        None \<Rightarrow> s
      | Some sock \<Rightarrow> update_position sock data s)"
| "step (Disconnect c) s =
     (case map_of (sockets s) c of
        None \<Rightarrow> s
      | Some sock \<Rightarrow> disconnect sock s)"
| "step Post_api_admin_resetar s = snd (post_api_admin_resetar s)"

fun run :: "event list \<Rightarrow> 'a server_scheme \<Rightarrow> 'a server_scheme" where
  "run [] s = s"
| "run (e # es) s = run es (step e s)"


section \<open>The richer variant\<close>

text \<open>A call either returns a value or throws.\<close>

datatype 'a outcome = Returns 'a | Throws string

text \<open>
  What the store does with one insert, which the server cannot choose: it stores the row,
  it answers with an \<open>error\<close> carrying a message, or the call throws.
\<close>

datatype insert_reply = Inserted | Insert_error string | Insert_throws string

text \<open>The \<open>{ error }\<close> that the awaited insert yields: \<open>error\<close> is null or has a \<open>message\<close>.\<close>

record insert_result =
  error :: "string option"

definition supabase_insert ::
  "insert_reply \<Rightarrow> coordinates_row \<Rightarrow> db_server \<Rightarrow> insert_result outcome \<times> db_server" where
  "supabase_insert reply row s =
     (let s1 = s\<lparr>inserts := inserts s @ [row]\<rparr>
      in case reply of
           Inserted \<Rightarrow> (Returns \<lparr>error = None\<rparr>, s1)
         | Insert_error m \<Rightarrow> (Returns \<lparr>error = Some m\<rparr>, s1)
         | Insert_throws e \<Rightarrow> (Throws e, s1))"

text \<open>
  \<open>socket.on("update_position", async (data) => ...)\<close> of \<open>server.ts\<close>: log the payload;
  inside \<open>try\<close>, await the insert and log its \<open>error.message\<close> if it has an error; in
  \<open>catch\<close>, log what was thrown. Nothing is thrown again and nothing is emitted.
\<close>

definition db_update_position ::
  "socket \<Rightarrow> insert_reply \<Rightarrow> number trip_position_data \<Rightarrow> db_server \<Rightarrow> db_server outcome" where
  "db_update_position sock reply data s =
     (let s1 = console_log (Log_recebido data) s
      in case supabase_insert reply
                \<lparr>lat = lat data, lng = lng data, user_id = userId data, trip_id = tripId data\<rparr> s1 of
           (Returns r, s2) \<Rightarrow>
             (case error r of
                Some m \<Rightarrow> Returns (console_error (Error_ao_salvar_coordenada m) s2)
              | None \<Rightarrow> Returns s2)
         | (Throws err, s2) \<Rightarrow> Returns (console_error (Error_interno_ao_salvar err) s2))"

text \<open>
  What reaches the richer server over sockets; an \<open>update_position\<close> comes with the reply
  the store will give to its insert.
\<close>

datatype db_event =
    Db_connection string
  | Db_update_position string insert_reply "number trip_position_data"
  | Db_disconnect string

fun db_step :: "db_event \<Rightarrow> db_server \<Rightarrow> db_server outcome" where
  "db_step (Db_connection c) s = Returns (connection c s)"
| "db_step (Db_update_position c reply data) s =
     (case map_of (sockets s) c of
        None \<Rightarrow> Returns s
      | Some sock \<Rightarrow> db_update_position sock reply data s)"
| "db_step (Db_disconnect c) s =
     (case map_of (sockets s) c of
        None \<Rightarrow> Returns s
      | Some sock \<Rightarrow> Returns (disconnect sock s))"

text \<open>A handler that throws ends the run: nothing in the source catches around the handlers.\<close>

fun db_run :: "db_event list \<Rightarrow> db_server \<Rightarrow> db_server outcome" where
  "db_run [] s = Returns s"
| "db_run (e # es) s =
     (case db_step e s of
        Returns s1 \<Rightarrow> db_run es s1
      | Throws err \<Rightarrow> Throws err)"

section \<open>What a client has received\<close>

text \<open>The messages handed to the socket \<open>c\<close> so far, oldest first.\<close>

definition delivered :: "string \<Rightarrow> 'a server_scheme \<Rightarrow> server_to_client list" where
  "delivered c s = map snd (filter (\<lambda>(r, m). r = c) (emitted s))"

text \<open>Every socket that \<open>io\<close> holds is stored under its own id.\<close>

definition ids_agree :: "(string \<times> socket) list \<Rightarrow> bool" where
  "ids_agree al = list_all (\<lambda>(k, sock). socket_id sock = k) al"

section \<open>Facts about single steps\<close>

lemma dataInMemory_update_position:
  "dataInMemory (update_position sock data s) =
     (if userId data = ''__proto__'' then dataInMemory s
      else (dataInMemory s)(userId data \<mapsto> \<lparr>lat = lat data, lng = lng data\<rparr>))"
  by (simp add: update_position_def assign_dataInMemory_def console_log_def Let_def)

lemma prototype_update_position:
  "dataInMemory_prototype (update_position sock data s) =
     (if userId data = ''__proto__'' then Some \<lparr>lat = lat data, lng = lng data\<rparr>
      else dataInMemory_prototype s)"
  by (simp add: update_position_def assign_dataInMemory_def console_log_def Let_def)

lemma sockets_update_position [simp]: "sockets (update_position sock data s) = sockets s"
  by (simp add: update_position_def assign_dataInMemory_def console_log_def Let_def)

lemma emitted_update_position: "emitted (update_position sock data s) = emitted s"
  by (simp add: update_position_def assign_dataInMemory_def console_log_def Let_def)

lemma emitted_disconnect: "emitted (disconnect sock s) = emitted s"
  by (simp add: disconnect_def console_log_def)

text \<open>The richer handler in closed form: one insert, one or two console lines, never a throw.\<close>

lemma db_update_position_eq:
  "db_update_position sock reply data s =
     Returns (s\<lparr>console := console s @ Log_recebido data #
                  (case reply of Inserted \<Rightarrow> []
                   | Insert_error m \<Rightarrow> [Error_ao_salvar_coordenada m]
                   | Insert_throws e \<Rightarrow> [Error_interno_ao_salvar e]),
               inserts := inserts s @
                 [\<lparr>lat = lat data, lng = lng data, user_id = userId data, trip_id = tripId data\<rparr>]\<rparr>)"
  by (cases reply)
     (simp_all add: db_update_position_def supabase_insert_def console_log_def
        console_error_def Let_def)

lemma db_step_returns:
  "\<exists>s1. db_step e s = Returns s1 \<and> dataInMemory s1 = dataInMemory s \<and> emitted s1 = emitted s"
  by (cases e)
     (auto simp: db_update_position_eq connection_def disconnect_def console_log_def
        split: option.splits)

section \<open>Facts about sequences\<close>





text \<open>For a user id other than \<open>__proto__\<close>, the second of two samples is the entry.\<close>

lemma last_arrival_wins_ordinary_key:
  "userId s2 = userId s1 \<Longrightarrow> userId s1 \<noteq> ''__proto__'' \<Longrightarrow>
   dataInMemory (update_position k2 s2 (update_position k1 s1 st)) (userId s1) =
     Some \<lparr>lat = lat s2, lng = lng s2\<rparr>"
  by (simp add: dataInMemory_update_position)

lemma run_append: "run (es @ fs) s = run fs (run es s)"
  by (induction es arbitrary: s) simp_all

lemma db_run_returns:
  "\<exists>s1. db_run es s = Returns s1 \<and> dataInMemory s1 = dataInMemory s \<and> emitted s1 = emitted s"
proof (induction es arbitrary: s)
  case Nil
  show ?case by simp
next
  case (Cons e es)
  obtain s1 where s1: "db_step e s = Returns s1" "dataInMemory s1 = dataInMemory s"
    "emitted s1 = emitted s"
    using db_step_returns by blast
  with Cons.IH [of s1] show ?case by auto
qed

section \<open>The sockets of \<open>io\<close>\<close>

lemma distinct_sockets_step:
  "distinct (map fst (sockets s)) \<Longrightarrow> distinct (map fst (sockets (step e s)))"
  by (cases e)
     (auto simp: connection_def disconnect_def console_log_def post_api_admin_resetar_def
        io_emit_def Let_def AList.distinct_update AList.distinct_delete split: option.splits)

lemma distinct_sockets_run:
  "distinct (map fst (sockets s)) \<Longrightarrow> distinct (map fst (sockets (run es s)))"
  by (induction es arbitrary: s) (simp_all add: distinct_sockets_step)

lemma ids_agree_update:
  "ids_agree al \<Longrightarrow> socket_id sock = k \<Longrightarrow> ids_agree (AList.update k sock al)"
  by (induction al) (auto simp: ids_agree_def)

lemma ids_agree_delete: "ids_agree al \<Longrightarrow> ids_agree (AList.delete k al)"
  by (induction al) (auto simp: ids_agree_def)

lemma ids_agree_step: "ids_agree (sockets s) \<Longrightarrow> ids_agree (sockets (step e s))"
  by (cases e)
     (auto simp: connection_def disconnect_def console_log_def post_api_admin_resetar_def
        io_emit_def Let_def ids_agree_update ids_agree_delete split: option.splits)

lemma ids_agree_run: "ids_agree (sockets s) \<Longrightarrow> ids_agree (sockets (run es s))"
  by (induction es arbitrary: s) (simp_all add: ids_agree_step)

lemma ids_agree_lookup: "ids_agree al \<Longrightarrow> map_of al c = Some sock \<Longrightarrow> socket_id sock = c"
  by (induction al) (auto simp: ids_agree_def split: if_splits)

lemma disconnect_removes:
  assumes "ids_agree (sockets s)"
  shows "c \<notin> fst ` set (sockets (step (Disconnect c) s))"
proof (cases "map_of (sockets s) c")
  case None
  then have "c \<notin> fst ` set (sockets s)" by (simp add: map_of_eq_None_iff)
  with None show ?thesis by simp
next
  case (Some sock)
  with assms have "socket_id sock = c" by (rule ids_agree_lookup)
  with Some show ?thesis
    by (simp add: disconnect_def console_log_def AList.delete_notin_dom)
qed

lemma one_message_each:
  "distinct (map fst xs) \<Longrightarrow>
   map snd (filter (\<lambda>(r, m). r = c) (map (\<lambda>(k, sock). (k, ev)) xs)) =
     (if c \<in> fst ` set xs then [ev] else [])"
proof (induction xs)
  case Nil
  show ?case by simp
next
  case (Cons x xs)
  then show ?case by (cases x) (auto simp: image_iff)
qed

lemma delivered_io_emit:
  "distinct (map fst (sockets s)) \<Longrightarrow>
   delivered c (io_emit ev s) = delivered c s @ (if c \<in> fst ` set (sockets s) then [ev] else [])"
  unfolding delivered_def io_emit_def by (simp add: one_message_each del: map_map)

lemmas eval_defs =
  update_position_def assign_dataInMemory_def db_update_position_def supabase_insert_def console_log_def
  console_error_def connection_def disconnect_def io_emit_def post_api_admin_resetar_def
  initial_def db_initial_def delivered_def Let_def

section \<open>The last position of a user\<close>

text \<open>
  C1. Two samples with the same \<open>userId\<close> are handled one after the other; the entry of
  \<open>dataInMemory\<close> for that user should then hold the coordinates of the second. For the
  user id \<open>__proto__\<close> it does not: a client connects and sends (10, 20) and then (11, 21)
  under that id, and \<open>dataInMemory\<close> has no entry for it, and no entry at all; the
  coordinates of the second sample have become the prototype of the object.
\<close>

theorem proto_key_makes_no_entry:
  "dataInMemory
     (run [Connection ''a'',
           Update_position ''a'' \<lparr>lat = 10, lng = 20, userId = ''__proto__''\<rparr>,
           Update_position ''a'' \<lparr>lat = 11, lng = 21, userId = ''__proto__''\<rparr>] initial)
     ''__proto__'' = None \<and>
   dataInMemory
     (run [Connection ''a'',
           Update_position ''a'' \<lparr>lat = 10, lng = 20, userId = ''__proto__''\<rparr>,
           Update_position ''a'' \<lparr>lat = 11, lng = 21, userId = ''__proto__''\<rparr>] initial)
     = Map.empty \<and>
   dataInMemory_prototype
     (run [Connection ''a'',
           Update_position ''a'' \<lparr>lat = 10, lng = 20, userId = ''__proto__''\<rparr>,
           Update_position ''a'' \<lparr>lat = 11, lng = 21, userId = ''__proto__''\<rparr>] initial)
     = Some \<lparr>lat = 11, lng = 21\<rparr>"
  by (simp add: eval_defs)

text \<open>
  C9. In the simple variant, handling a sample of user \<open>u\<close> leaves the entry of every other
  user \<open>v\<close> as it was, present or absent.
\<close>

theorem ingest_frame:
  "v \<noteq> userId data \<Longrightarrow> dataInMemory (update_position sock data s) v = dataInMemory s v"
  by (simp add: dataInMemory_update_position)

text \<open>With \<open>u1\<close> stored, a sample of \<open>u2\<close> leaves the entry of \<open>u1\<close> and the absent entry of \<open>u3\<close>.\<close>

theorem ingest_frame_witness:
  "''u1'' \<noteq> userId \<lparr>lat = 5, lng = 6, userId = ''u2''\<rparr> \<and>
   dataInMemory
     (update_position \<lparr>socket_id = ''b'', data_userId = None\<rparr> \<lparr>lat = 5, lng = 6, userId = ''u2''\<rparr>
       (update_position \<lparr>socket_id = ''a'', data_userId = None\<rparr> \<lparr>lat = 10, lng = 20, userId = ''u1''\<rparr>
          initial)) ''u1'' = Some \<lparr>lat = 10, lng = 20\<rparr>"
proof -
  have h: "''u1'' \<noteq> userId \<lparr>lat = 5, lng = 6, userId = ''u2''\<rparr>" by simp
  show ?thesis
    using h ingest_frame [OF h, of "\<lparr>socket_id = ''b'', data_userId = None\<rparr>"
        "update_position \<lparr>socket_id = ''a'', data_userId = None\<rparr>
           \<lparr>lat = 10, lng = 20, userId = ''u1''\<rparr> initial"]
    by (simp add: dataInMemory_update_position)
qed



section \<open>Checks the handlers do not make\<close>

text \<open>
  C2. The claim is that a sample arriving on a connection with no user id is refused and
  changes nothing. Neither handler looks at \<open>socket.data\<close>. A client connects, which gives
  its socket no user id, and sends one sample: in the simple variant the cache then holds
  the sample, and in the richer variant the store has been asked to insert it.
\<close>

theorem unauthenticated_ingest_counterexample:
  "map_option data_userId
     (map_of (sockets (run [Connection ''a''] initial)) ''a'') = Some None \<and>
   dataInMemory
     (run [Connection ''a'', Update_position ''a'' \<lparr>lat = 10, lng = 20, userId = ''u1''\<rparr>] initial)
     ''u1'' = Some \<lparr>lat = 10, lng = 20\<rparr> \<and>
   dataInMemory
     (run [Connection ''a'', Update_position ''a'' \<lparr>lat = 10, lng = 20, userId = ''u1''\<rparr>] initial)
     \<noteq> dataInMemory (run [Connection ''a''] initial) \<and>
   db_run [Db_connection ''a'',
           Db_update_position ''a'' Inserted \<lparr>lat = 10, lng = 20, userId = 1, tripId = ''t1''\<rparr>]
       db_initial =
     Returns (db_initial\<lparr>
       sockets := [(''a'', \<lparr>socket_id = ''a'', data_userId = None\<rparr>)],
       console := [Log_cliente_conectado ''a'',
                   Log_recebido \<lparr>lat = 10, lng = 20, userId = 1, tripId = ''t1''\<rparr>],
       inserts := [\<lparr>lat = 10, lng = 20, user_id = 1, trip_id = ''t1''\<rparr>]\<rparr>)"
proof -
  let ?s0 = "run [Connection ''a''] (initial :: server)"
  let ?s1 = "run [Connection ''a'',
                  Update_position ''a'' \<lparr>lat = 10, lng = 20, userId = ''u1''\<rparr>] (initial :: server)"
  have a: "map_option data_userId (map_of (sockets ?s0) ''a'') = Some None"
    by (simp add: eval_defs)
  have b: "dataInMemory ?s1 ''u1'' = Some \<lparr>lat = 10, lng = 20\<rparr>"
    by (simp add: eval_defs)
  have c: "dataInMemory ?s0 ''u1'' = None"
    by (simp add: eval_defs)
  from b c have d: "dataInMemory ?s1 \<noteq> dataInMemory ?s0"
    by (metis option.distinct(1))
  have e: "db_run [Db_connection ''a'',
           Db_update_position ''a'' Inserted \<lparr>lat = 10, lng = 20, userId = 1, tripId = ''t1''\<rparr>]
       db_initial =
     Returns (db_initial\<lparr>
       sockets := [(''a'', \<lparr>socket_id = ''a'', data_userId = None\<rparr>)],
       console := [Log_cliente_conectado ''a'',
                   Log_recebido \<lparr>lat = 10, lng = 20, userId = 1, tripId = ''t1''\<rparr>],
       inserts := [\<lparr>lat = 10, lng = 20, user_id = 1, trip_id = ''t1''\<rparr>]\<rparr>)"
    by (simp add: eval_defs)
  from a b d e show ?thesis by blast
qed

text \<open>
  C2, as the code has it. The handlers never read the user id of the connection: on a
  connection with no user id a sample is handled exactly as on a connection with one. The
  simple variant makes its coordinates the entry of its \<open>userId\<close>, when that is not
  \<open>__proto__\<close>; the richer variant asks the store for one insert of its row and returns,
  whatever the store replies.
\<close>

theorem ingest_ignores_authentication:
  "data_userId sock = None \<Longrightarrow>
   update_position sock data s = update_position (sock\<lparr>data_userId := Some u\<rparr>) data s \<and>
   (userId data \<noteq> ''__proto__'' \<longrightarrow>
      dataInMemory (update_position sock data s) (userId data) =
        Some \<lparr>lat = lat data, lng = lng data\<rparr>) \<and>
   db_update_position sock reply tdata t =
     db_update_position (sock\<lparr>data_userId := Some u\<rparr>) reply tdata t \<and>
   (\<exists>t1. db_update_position sock reply tdata t = Returns t1 \<and>
      inserts t1 = inserts t @
        [\<lparr>lat = lat tdata, lng = lng tdata, user_id = userId tdata, trip_id = tripId tdata\<rparr>])"
  by (simp add: dataInMemory_update_position db_update_position_eq)
     (simp add: update_position_def)

theorem ingest_ignores_authentication_witness:
  "data_userId \<lparr>socket_id = ''a'', data_userId = None\<rparr> = None \<and>
   userId \<lparr>lat = 10, lng = 20, userId = ''u1''\<rparr> \<noteq> ''__proto__'' \<and>
   dataInMemory (update_position \<lparr>socket_id = ''a'', data_userId = None\<rparr>
       \<lparr>lat = 10, lng = 20, userId = ''u1''\<rparr> initial) ''u1'' = Some \<lparr>lat = 10, lng = 20\<rparr> \<and>
   update_position \<lparr>socket_id = ''a'', data_userId = None\<rparr>
       \<lparr>lat = 10, lng = 20, userId = ''u1''\<rparr> initial =
     update_position \<lparr>socket_id = ''a'', data_userId = Some ''u1''\<rparr>
       \<lparr>lat = 10, lng = 20, userId = ''u1''\<rparr> initial"
proof -
  have h: "data_userId \<lparr>socket_id = ''a'', data_userId = None\<rparr> = None" by simp
  have k: "userId \<lparr>lat = 10, lng = 20, userId = ''u1''\<rparr> \<noteq> ''__proto__''" by simp
  show ?thesis
    using h k ingest_ignores_authentication [OF h, of "\<lparr>lat = 10, lng = 20, userId = ''u1''\<rparr>"
        initial "''u1''" Inserted "\<lparr>lat = 10, lng = 20, userId = 1, tripId = ''t1''\<rparr>" db_initial]
    by (simp add: dataInMemory_update_position)
qed

text \<open>
  C3. The claim is that a sample with latitude 91 is refused and leaves the cache as it
  was. Neither handler checks a range. In the simple variant, from the empty cache, the
  sample of \<open>u1\<close> with latitude 91 is stored.
\<close>

theorem latitude_91_counterexample:
  "dataInMemory (update_position \<lparr>socket_id = ''a'', data_userId = Some ''u1''\<rparr>
       \<lparr>lat = 91, lng = 20, userId = ''u1''\<rparr> initial) ''u1'' = Some \<lparr>lat = 91, lng = 20\<rparr> \<and>
   dataInMemory (update_position \<lparr>socket_id = ''a'', data_userId = Some ''u1''\<rparr>
       \<lparr>lat = 91, lng = 20, userId = ''u1''\<rparr> initial) \<noteq> dataInMemory initial"
proof -
  let ?s = "update_position \<lparr>socket_id = ''a'', data_userId = Some ''u1''\<rparr>
       \<lparr>lat = 91, lng = 20, userId = ''u1''\<rparr> (initial :: server)"
  have a: "dataInMemory ?s ''u1'' = Some \<lparr>lat = 91, lng = 20\<rparr>"
    by (simp add: dataInMemory_update_position)
  have b: "dataInMemory (initial :: server) ''u1'' = None"
    by (simp add: initial_def)
  from a b have "dataInMemory ?s \<noteq> dataInMemory initial"
    by (metis option.distinct(1))
  with a show ?thesis by simp
qed

text \<open>
  C3, as the code has it. A sample with latitude 91 is handled like any other. In the
  simple variant, when its \<open>userId\<close> is not \<open>__proto__\<close>, (91, lng) becomes the entry of its
  \<open>userId\<close> and every other entry stays as it was. The richer variant, which never writes
  the cache, asks the store to insert the row with latitude 91 and returns, whatever the
  store replies.
\<close>

theorem latitude_91_is_stored:
  "lat data = 91 \<Longrightarrow> lat tdata = 91 \<Longrightarrow>
   (userId data \<noteq> ''__proto__'' \<longrightarrow>
      dataInMemory (update_position sock data s) =
        (dataInMemory s)(userId data \<mapsto> \<lparr>lat = 91, lng = lng data\<rparr>)) \<and>
   db_update_position sock reply tdata t =
     Returns (t\<lparr>console := console t @ Log_recebido tdata #
                  (case reply of Inserted \<Rightarrow> []
                   | Insert_error m \<Rightarrow> [Error_ao_salvar_coordenada m]
                   | Insert_throws e \<Rightarrow> [Error_interno_ao_salvar e]),
               inserts := inserts t @
                 [\<lparr>lat = 91, lng = lng tdata, user_id = userId tdata, trip_id = tripId tdata\<rparr>]\<rparr>)"
  by (simp add: dataInMemory_update_position db_update_position_eq)

theorem latitude_91_is_stored_witness:
  "lat \<lparr>lat = 91, lng = 20, userId = ''u1''\<rparr> = 91 \<and>
   lat \<lparr>lat = 91, lng = 20, userId = 1, tripId = ''t1''\<rparr> = 91 \<and>
   userId \<lparr>lat = 91, lng = 20, userId = ''u1''\<rparr> \<noteq> ''__proto__'' \<and>
   dataInMemory (update_position \<lparr>socket_id = ''a'', data_userId = None\<rparr>
       \<lparr>lat = 91, lng = 20, userId = ''u1''\<rparr> initial) ''u1'' = Some \<lparr>lat = 91, lng = 20\<rparr> \<and>
   db_update_position \<lparr>socket_id = ''a'', data_userId = None\<rparr> (Insert_error ''timeout'')
       \<lparr>lat = 91, lng = 20, userId = 1, tripId = ''t1''\<rparr> db_initial =
     Returns (db_initial\<lparr>
       console := [Log_recebido \<lparr>lat = 91, lng = 20, userId = 1, tripId = ''t1''\<rparr>,
                   Error_ao_salvar_coordenada ''timeout''],
       inserts := [\<lparr>lat = 91, lng = 20, user_id = 1, trip_id = ''t1''\<rparr>]\<rparr>)"
proof -
  have h1: "lat \<lparr>lat = 91, lng = 20, userId = ''u1''\<rparr> = 91" by simp
  have h2: "lat \<lparr>lat = 91, lng = 20, userId = 1 :: number, tripId = ''t1''\<rparr> = 91" by simp
  have k: "userId \<lparr>lat = 91, lng = 20, userId = ''u1''\<rparr> \<noteq> ''__proto__''" by simp
  show ?thesis
    using h1 h2 k latitude_91_is_stored [OF h1 h2, of "\<lparr>socket_id = ''a'', data_userId = None\<rparr>"
        initial "Insert_error ''timeout''" db_initial]
    by (simp add: initial_def db_initial_def)
qed

section \<open>The store fails\<close>

text \<open>
  C4. In the richer variant, when the store answers an insert with an error or the call
  throws, the handler still returns: it has asked for that one insert only (no retry), it
  has written one error line to the console after the line for the payload, and it has
  changed nothing else, so no message goes to the client and no error leaves the handler.
\<close>

theorem sink_failure_is_logged_not_retried:
  "reply = Insert_error m \<or> reply = Insert_throws m \<Longrightarrow>
   db_update_position sock reply data s =
     Returns (s\<lparr>console := console s @
                  [Log_recebido data,
                   if reply = Insert_error m then Error_ao_salvar_coordenada m
                   else Error_interno_ao_salvar m],
               inserts := inserts s @
                 [\<lparr>lat = lat data, lng = lng data, user_id = userId data, trip_id = tripId data\<rparr>]\<rparr>)"
  by (auto simp: db_update_position_eq)

theorem sink_failure_is_logged_not_retried_witness:
  "(Insert_error ''timeout'' = Insert_error ''timeout'' \<or>
    Insert_error ''timeout'' = Insert_throws ''timeout'') \<and>
   db_update_position \<lparr>socket_id = ''a'', data_userId = None\<rparr> (Insert_error ''timeout'')
       \<lparr>lat = 10, lng = 20, userId = 1, tripId = ''t1''\<rparr> db_initial =
     Returns (db_initial\<lparr>
       console := [Log_recebido \<lparr>lat = 10, lng = 20, userId = 1, tripId = ''t1''\<rparr>,
                   Error_ao_salvar_coordenada ''timeout''],
       inserts := [\<lparr>lat = 10, lng = 20, user_id = 1, trip_id = ''t1''\<rparr>]\<rparr>)"
proof -
  have h: "Insert_error ''timeout'' = Insert_error ''timeout'' \<or>
    Insert_error ''timeout'' = Insert_throws ''timeout''" by simp
  show ?thesis
    using h sink_failure_is_logged_not_retried [OF h, of "\<lparr>socket_id = ''a'', data_userId = None\<rparr>"
        "\<lparr>lat = 10, lng = 20, userId = 1, tripId = ''t1''\<rparr>" db_initial]
    by (simp add: db_initial_def)
qed

text \<open>
  C10. The handler of the richer variant returns for every reply of the store. An error
  value that the insert returns is logged with its message, and an exception that the
  insert throws is caught and logged, each as one console line after the line for the
  payload. So any sequence of socket events runs to its end without a throw.
\<close>

theorem db_update_position_never_throws:
  "(\<exists>s1. db_update_position sock reply data s = Returns s1) \<and>
   (\<exists>s1. db_update_position sock (Insert_error m) data s = Returns s1 \<and>
      console s1 = console s @ [Log_recebido data, Error_ao_salvar_coordenada m]) \<and>
   (\<exists>s1. db_update_position sock (Insert_throws m) data s = Returns s1 \<and>
      console s1 = console s @ [Log_recebido data, Error_interno_ao_salvar m]) \<and>
   (\<exists>s1. db_run es s = Returns s1)"
  using db_run_returns [of es s] by (auto simp: db_update_position_eq)

section \<open>The richer variant never writes the cache\<close>

text \<open>
  C8. In the richer variant, after any sequence of socket events from the start of the
  process, the run has returned and \<open>dataInMemory\<close> is still empty: the handler of
  \<open>update_position\<close> only asks the store for an insert and writes to the console.
\<close>

theorem db_cache_stays_empty:
  "\<exists>s. db_run es db_initial = Returns s \<and> dataInMemory s = Map.empty"
  using db_run_returns [of es db_initial] by (auto simp: db_initial_def)

section \<open>Messages to the clients\<close>

text \<open>
  C6. Handling an \<open>update_position\<close> hands no message to any client, so in particular no
  \<open>palete_movimentado\<close>: the list of emitted messages is the same before and after, for the
  handler and for the event, in the simple variant and in the richer one.
\<close>

theorem update_position_emits_nothing:
  "emitted (update_position sock data s) = emitted s \<and>
   emitted (step (Update_position c data) s) = emitted s \<and>
   (\<exists>t1. db_update_position sock reply tdata t = Returns t1 \<and> emitted t1 = emitted t) \<and>
   (\<exists>t1. db_step (Db_update_position c reply tdata) t = Returns t1 \<and> emitted t1 = emitted t)"
  using db_step_returns [of "Db_update_position c reply tdata" t]
  by (auto simp: emitted_update_position db_update_position_eq split: option.splits)

text \<open>
  C7. After any sequence of events of the simple variant, \<open>POST /api/admin/resetar\<close> answers
  \<open>{ ok: true }\<close>, and what a socket \<open>c\<close> has received grows by exactly the one
  \<open>erro_sistema\<close> message when \<open>c\<close> is connected and by nothing when it is not. A socket that
  went away just before the call receives nothing, and the call answers all the same.
\<close>

theorem resetar_notifies_connected_clients:
  "fst (post_api_admin_resetar (run es initial)) = Res_json [(''ok'', True)] \<and>
   delivered c (snd (post_api_admin_resetar (run es initial))) =
     delivered c (run es initial) @
       (if c \<in> fst ` set (sockets (run es initial))
        then [Erro_sistema ''Sistema reiniciando, aguarde...''] else []) \<and>
   fst (post_api_admin_resetar (run (es @ [Disconnect c]) initial)) = Res_json [(''ok'', True)] \<and>
   delivered c (snd (post_api_admin_resetar (run (es @ [Disconnect c]) initial))) =
     delivered c (run es initial)"
proof -
  have d0: "distinct (map fst (sockets (initial :: server)))"
    by (simp add: initial_def)
  have d: "distinct (map fst (sockets (run fs (initial :: server))))" for fs
    using d0 by (rule distinct_sockets_run)
  have "ids_agree (sockets (initial :: server))"
    by (simp add: initial_def ids_agree_def)
  then have agree: "ids_agree (sockets (run es (initial :: server)))"
    by (rule ids_agree_run)
  have emit: "delivered c (snd (post_api_admin_resetar (run fs (initial :: server)))) =
      delivered c (run fs initial) @
        (if c \<in> fst ` set (sockets (run fs initial))
         then [Erro_sistema ''Sistema reiniciando, aguarde...''] else [])" for fs
    using delivered_io_emit [OF d] by (simp add: post_api_admin_resetar_def Let_def)
  have same: "delivered c (step (Disconnect c) s) = delivered c s" for s :: server
    by (cases "map_of (sockets s) c") (simp_all add: delivered_def emitted_disconnect)
  have "delivered c (snd (post_api_admin_resetar (run (es @ [Disconnect c]) initial))) =
      delivered c (run (es @ [Disconnect c]) initial)"
    using emit [of "es @ [Disconnect c]"] disconnect_removes [OF agree, of c]
    by (simp add: run_append)
  also have "\<dots> = delivered c (run es initial)"
    by (simp only: run_append run.simps same)
  finally show ?thesis
    using emit [of es] by (simp add: post_api_admin_resetar_def Let_def)
qed

text \<open>
  Sockets \<open>a\<close> and \<open>b\<close> connect and the route is called: \<open>a\<close> receives the message once.
  When \<open>b\<close> has gone away before the call, \<open>b\<close> receives nothing.
\<close>

theorem resetar_notifies_connected_clients_witness:
  "fst (post_api_admin_resetar (run [Connection ''a'', Connection ''b''] initial)) =
     Res_json [(''ok'', True)] \<and>
   delivered ''a'' (snd (post_api_admin_resetar (run [Connection ''a'', Connection ''b''] initial))) =
     [Erro_sistema ''Sistema reiniciando, aguarde...''] \<and>
   delivered ''b''
     (snd (post_api_admin_resetar (run ([Connection ''a'', Connection ''b''] @ [Disconnect ''b''])
        initial))) = []"
  using resetar_notifies_connected_clients [of "[Connection ''a'', Connection ''b'']" "''a''"]
    resetar_notifies_connected_clients [of "[Connection ''a'', Connection ''b'']" "''b''"]
  by (simp add: eval_defs)

end
